theory Spec2Isabelle
  imports Main "HOL-Library.AList"
begin

section \<open>JavaScript values, objects and the store\<close>

text \<open>
  The connection managers of \<^verbatim>\<open>src/api/external.ts\<close> hold references to objects: the
  config object the caller passed in, and the client object of the driver. Objects live
  in a store and are named by their address; \<open>getConfig()\<close> copies with a spread, so the
  sharing of nested objects is visible only with the store written out.

  Numbers are restricted to integers (ports); \<open>NaN\<close> and fractions are left out.
\<close>

type_synonym addr = nat

datatype js_val = VUndefined | VNull | VBool bool | VNum int | VStr string | VRef addr

text \<open>An object is the list of its own properties, in insertion order.\<close>

type_synonym js_obj = "(string \<times> js_val) list"

text \<open>Reading a property that the object does not have gives \<open>undefined\<close>.\<close>

definition prop_of :: "js_obj \<Rightarrow> string \<Rightarrow> js_val" where
  "prop_of ob p = (case map_of ob p of None \<Rightarrow> VUndefined | Some v \<Rightarrow> v)"

text \<open>JavaScript truthiness, and \<open>a || b\<close>.\<close>

fun truthy :: "js_val \<Rightarrow> bool" where
  "truthy VUndefined = False"
| "truthy VNull = False"
| "truthy (VBool b) = b"
| "truthy (VNum n) = (n \<noteq> 0)"
| "truthy (VStr s) = (s \<noteq> [])"
| "truthy (VRef a) = True"

definition js_or :: "js_val \<Rightarrow> js_val \<Rightarrow> js_val" where
  "js_or a b = (if truthy a then a else b)"

text \<open>
  What a \<open>throw\<close> carries. An instance of \<open>Error\<close> is given by the string that its
  \<open>message\<close> reads and by the other properties that can be read from it; any other
  value is given by the string that \<open>String()\<close> returns for it. \<open>new Error(msg)\<close> has
  the message and the name \<open>Error\<close>, and no other property (the engine's stack text is
  left out). In particular it has no \<open>cause\<close>, which only \<open>new Error(msg, {cause})\<close>
  sets.
\<close>

datatype thrown = Error_obj string js_obj | Non_error string

definition new_Error :: "string \<Rightarrow> thrown" where
  "new_Error msg = Error_obj msg [(''name'', VStr ''Error'')]"

text \<open>
  Reading a property of a caught value. The theorems read properties only of the errors
  that the managers throw, which are instances of \<open>Error\<close>; a caught primitive has none
  of the properties asked for there.
\<close>

fun thrown_prop :: "thrown \<Rightarrow> string \<Rightarrow> js_val" where
  "thrown_prop (Error_obj msg ob) p = (if p = ''message'' then VStr msg else prop_of ob p)"
| "thrown_prop (Non_error s) p = VUndefined"

text \<open>
  \<^verbatim>\<open>${error instanceof Error ? error.message : String(error)}\<close> in both \<open>catch\<close> blocks:
  the message of an \<open>Error\<close>, the string form of anything else.
\<close>

fun error_text :: "thrown \<Rightarrow> string" where
  "error_text (Error_obj msg ob) = msg"
| "error_text (Non_error s) = s"

text \<open>
  A call into a driver (a constructor, or a method of the client) either returns or
  throws; awaiting a promise that was rejected throws as well. The drivers are not part
  of the repository, so each operation that calls one takes the outcome of that call as
  an argument.
\<close>

datatype outcome = Returns | Throws thrown

text \<open>
  The cells of the store: plain objects (configs, credentials, TLS options), and the
  three kinds of client object. The object-storage client keeps the settings it was
  built from; the FTP client has the \<open>ftp.verbose\<close> flag that the constructor sets.
\<close>

datatype cell = Plain js_obj | S3Client_obj js_obj | FtpClient_obj bool | SftpClient_obj

text \<open>Every call of a method of a client is recorded, with the client it was made on.\<close>

datatype event =
    S3_destroy addr
  | Ftp_access addr js_obj
  | Ftp_close addr
  | Sftp_connect addr js_obj
  | Sftp_end addr

record world =
  heap :: "cell list"
  trace :: "event list"

definition alloc :: "cell \<Rightarrow> world \<Rightarrow> addr \<times> world" where
  "alloc c w = (length (heap w), w\<lparr>heap := heap w @ [c]\<rparr>)"

definition call :: "event \<Rightarrow> world \<Rightarrow> world" where
  "call e w = w\<lparr>trace := trace w @ [e]\<rparr>"

text \<open>
  The own properties of the object at an address. A reference held by a running program
  always points to an object; an address outside the store or at a client has no
  properties to read.
\<close>

definition props_at :: "world \<Rightarrow> addr \<Rightarrow> js_obj" where
  "props_at w a =
     (if a < length (heap w) then (case heap w ! a of Plain ob \<Rightarrow> ob | _ \<Rightarrow> []) else [])"

definition get_prop :: "world \<Rightarrow> addr \<Rightarrow> string \<Rightarrow> js_val" where
  "get_prop w a p = prop_of (props_at w a) p"

text \<open>\<open>o.p = v\<close> on the plain object at address \<open>a\<close>.\<close>

definition set_prop :: "addr \<Rightarrow> string \<Rightarrow> js_val \<Rightarrow> world \<Rightarrow> world" where
  "set_prop a p v w =
     (if a < length (heap w) then
        (case heap w ! a of
           Plain ob \<Rightarrow> w\<lparr>heap := (heap w)[a := Plain (AList.update p v ob)]\<rparr>
         | _ \<Rightarrow> w)
      else w)"

text \<open>\<open>o.p.q = v\<close>: the assignment goes to the object that \<open>o.p\<close> refers to.\<close>

definition set_nested_prop :: "addr \<Rightarrow> string \<Rightarrow> string \<Rightarrow> js_val \<Rightarrow> world \<Rightarrow> world" where
  "set_nested_prop a p q v w =
     (case get_prop w a p of VRef b \<Rightarrow> set_prop b q v w | _ \<Rightarrow> w)"

text \<open>\<open>{ ...o }\<close>: a new object with the own properties of \<open>o\<close>, values copied as they are.\<close>

definition spread :: "addr \<Rightarrow> world \<Rightarrow> addr \<times> world" where
  "spread a w = alloc (Plain (props_at w a)) w"

section \<open>S3Connection\<close>

record S3Connection =
  s3_client :: addr
  s3_config :: addr
  s3_connected :: bool

text \<open>
  The constructor: stores the reference to the caller's config, builds the settings
  object, calls \<open>new S3Client(s3Config)\<close> and sets \<open>connected\<close>. It has no \<open>throw\<close> of
  its own; if the driver's constructor throws, that value goes to the caller.
\<close>

definition S3Connection_new :: "outcome \<Rightarrow> addr \<Rightarrow> world \<Rightarrow> thrown + (S3Connection \<times> world)" where
  "S3Connection_new r config w =
     (let s3Config = [(''region'', get_prop w config ''region''),
                      (''credentials'', get_prop w config ''credentials''),
                      (''endpoint'', get_prop w config ''endpoint''),
                      (''forcePathStyle'', get_prop w config ''forcePathStyle'')]
      in case r of
           Throws t \<Rightarrow> Inl t
         | Returns \<Rightarrow>
             (let (c, w') = alloc (S3Client_obj s3Config) w
              in Inr (\<lparr>s3_client = c, s3_config = config, s3_connected = True\<rparr>, w')))"

definition S3Connection_getClient :: "S3Connection \<Rightarrow> thrown + addr" where
  "S3Connection_getClient m =
     (if \<not> s3_connected m then Inl (new_Error ''S3 connection not initialized'')
      else Inr (s3_client m))"

definition S3Connection_isConnected :: "S3Connection \<Rightarrow> bool" where
  "S3Connection_isConnected m = s3_connected m"

text \<open>
  \<open>disconnect()\<close> tests \<open>this.client\<close>, a reference to an object, where the two other
  classes test \<open>this.connected\<close>. The argument is the outcome of \<open>client.destroy()\<close>.
\<close>

definition S3Connection_disconnect ::
  "outcome \<Rightarrow> S3Connection \<Rightarrow> world \<Rightarrow> (thrown + unit) \<times> S3Connection \<times> world" where
  "S3Connection_disconnect r m w =
     (if truthy (VRef (s3_client m)) then
        (let w' = call (S3_destroy (s3_client m)) w
         in case r of
              Throws t \<Rightarrow> (Inl t, m, w')
            | Returns \<Rightarrow> (Inr (), m\<lparr>s3_connected := False\<rparr>, w'))
      else (Inr (), m, w))"

definition S3Connection_getConfig :: "S3Connection \<Rightarrow> world \<Rightarrow> addr \<times> world" where
  "S3Connection_getConfig m w = spread (s3_config m) w"

section \<open>FTPConnection\<close>

record FTPConnection =
  ftp_client :: addr
  ftp_config :: addr
  ftp_connected :: bool

text \<open>
  The constructor stores the config, calls \<open>new ftp.Client()\<close> and clears
  \<open>client.ftp.verbose\<close>; \<open>connected\<close> keeps its initial value \<open>false\<close>.
\<close>

definition FTPConnection_new :: "outcome \<Rightarrow> addr \<Rightarrow> world \<Rightarrow> thrown + (FTPConnection \<times> world)" where
  "FTPConnection_new r config w =
     (case r of
        Throws t \<Rightarrow> Inl t
      | Returns \<Rightarrow>
          (let (c, w') = alloc (FtpClient_obj False) w
           in Inr (\<lparr>ftp_client = c, ftp_config = config, ftp_connected = False\<rparr>, w')))"

definition ftp_access_options :: "world \<Rightarrow> addr \<Rightarrow> js_obj" where
  "ftp_access_options w config =
     [(''host'', get_prop w config ''host''),
      (''port'', js_or (get_prop w config ''port'') (VNum 21)),
      (''user'', js_or (get_prop w config ''user'') (VStr ''anonymous'')),
      (''password'', js_or (get_prop w config ''password'') (VStr [])),
      (''secure'', js_or (get_prop w config ''secure'') (VBool False)),
      (''secureOptions'', get_prop w config ''secureOptions'')]"

text \<open>The argument is the outcome of \<open>await this.client.access(...)\<close>.\<close>

definition FTPConnection_connect ::
  "outcome \<Rightarrow> FTPConnection \<Rightarrow> world \<Rightarrow> (thrown + unit) \<times> FTPConnection \<times> world" where
  "FTPConnection_connect r m w =
     (let w' = call (Ftp_access (ftp_client m) (ftp_access_options w (ftp_config m))) w
      in case r of
           Returns \<Rightarrow> (Inr (), m\<lparr>ftp_connected := True\<rparr>, w')
         | Throws error \<Rightarrow>
             (Inl (new_Error (''FTP connection failed: '' @ error_text error)),
              m\<lparr>ftp_connected := False\<rparr>, w'))"

definition FTPConnection_getClient :: "FTPConnection \<Rightarrow> thrown + addr" where
  "FTPConnection_getClient m =
     (if \<not> ftp_connected m then Inl (new_Error ''FTP not connected. Call connect() first.'')
      else Inr (ftp_client m))"

definition FTPConnection_isConnected :: "FTPConnection \<Rightarrow> bool" where
  "FTPConnection_isConnected m = ftp_connected m"

text \<open>The argument is the outcome of \<open>this.client.close()\<close>, when it is called.\<close>

definition FTPConnection_disconnect ::
  "outcome \<Rightarrow> FTPConnection \<Rightarrow> world \<Rightarrow> (thrown + unit) \<times> FTPConnection \<times> world" where
  "FTPConnection_disconnect r m w =
     (if ftp_connected m then
        (let w' = call (Ftp_close (ftp_client m)) w
         in case r of
              Throws t \<Rightarrow> (Inl t, m, w')
            | Returns \<Rightarrow> (Inr (), m\<lparr>ftp_connected := False\<rparr>, w'))
      else (Inr (), m, w))"

definition FTPConnection_getConfig :: "FTPConnection \<Rightarrow> world \<Rightarrow> addr \<times> world" where
  "FTPConnection_getConfig m w = spread (ftp_config m) w"

section \<open>SFTPConnection\<close>

record SFTPConnection =
  sftp_client :: addr
  sftp_config :: addr
  sftp_connected :: bool

definition SFTPConnection_new :: "outcome \<Rightarrow> addr \<Rightarrow> world \<Rightarrow> thrown + (SFTPConnection \<times> world)" where
  "SFTPConnection_new r config w =
     (case r of
        Throws t \<Rightarrow> Inl t
      | Returns \<Rightarrow>
          (let (c, w') = alloc SftpClient_obj w
           in Inr (\<lparr>sftp_client = c, sftp_config = config, sftp_connected = False\<rparr>, w')))"

definition sftp_connectConfig :: "world \<Rightarrow> addr \<Rightarrow> js_obj" where
  "sftp_connectConfig w config =
     [(''host'', get_prop w config ''host''),
      (''port'', js_or (get_prop w config ''port'') (VNum 22)),
      (''username'', get_prop w config ''username''),
      (''password'', get_prop w config ''password''),
      (''privateKey'', get_prop w config ''privateKey''),
      (''passphrase'', get_prop w config ''passphrase'')]"

text \<open>The argument is the outcome of \<open>await this.client.connect(connectConfig)\<close>.\<close>

definition SFTPConnection_connect ::
  "outcome \<Rightarrow> SFTPConnection \<Rightarrow> world \<Rightarrow> (thrown + unit) \<times> SFTPConnection \<times> world" where
  "SFTPConnection_connect r m w =
     (let w' = call (Sftp_connect (sftp_client m) (sftp_connectConfig w (sftp_config m))) w
      in case r of
           Returns \<Rightarrow> (Inr (), m\<lparr>sftp_connected := True\<rparr>, w')
         | Throws error \<Rightarrow>
             (Inl (new_Error (''SFTP connection failed: '' @ error_text error)),
              m\<lparr>sftp_connected := False\<rparr>, w'))"

definition SFTPConnection_getClient :: "SFTPConnection \<Rightarrow> thrown + addr" where
  "SFTPConnection_getClient m =
     (if \<not> sftp_connected m then Inl (new_Error ''SFTP not connected. Call connect() first.'')
      else Inr (sftp_client m))"

definition SFTPConnection_isConnected :: "SFTPConnection \<Rightarrow> bool" where
  "SFTPConnection_isConnected m = sftp_connected m"

text \<open>The argument is the outcome of \<open>await this.client.end()\<close>, when it is called.\<close>

definition SFTPConnection_disconnect ::
  "outcome \<Rightarrow> SFTPConnection \<Rightarrow> world \<Rightarrow> (thrown + unit) \<times> SFTPConnection \<times> world" where
  "SFTPConnection_disconnect r m w =
     (if sftp_connected m then
        (let w' = call (Sftp_end (sftp_client m)) w
         in case r of
              Throws t \<Rightarrow> (Inl t, m, w')
            | Returns \<Rightarrow> (Inr (), m\<lparr>sftp_connected := False\<rparr>, w'))
      else (Inr (), m, w))"

definition SFTPConnection_getConfig :: "SFTPConnection \<Rightarrow> world \<Rightarrow> addr \<times> world" where
  "SFTPConnection_getConfig m w = spread (sftp_config m) w"

section \<open>Sequences of calls on one manager\<close>

text \<open>
  The states a manager can reach are those that a sequence of method calls leaves
  behind, starting from the constructor. A caller that catches what a call throws goes
  on with the manager as that call left it. \<open>getClient()\<close> and \<open>isConnected()\<close> change
  nothing; \<open>getConfig()\<close> allocates the copy it returns.
\<close>

datatype op = Connect outcome | Disconnect outcome | GetClient | IsConnected | GetConfig

fun ftp_step :: "op \<Rightarrow> FTPConnection \<times> world \<Rightarrow> FTPConnection \<times> world" where
  "ftp_step (Connect r) (m, w) = snd (FTPConnection_connect r m w)"
| "ftp_step (Disconnect r) (m, w) = snd (FTPConnection_disconnect r m w)"
| "ftp_step GetClient (m, w) = (m, w)"
| "ftp_step IsConnected (m, w) = (m, w)"
| "ftp_step GetConfig (m, w) = (m, snd (FTPConnection_getConfig m w))"

fun sftp_step :: "op \<Rightarrow> SFTPConnection \<times> world \<Rightarrow> SFTPConnection \<times> world" where
  "sftp_step (Connect r) (m, w) = snd (SFTPConnection_connect r m w)"
| "sftp_step (Disconnect r) (m, w) = snd (SFTPConnection_disconnect r m w)"
| "sftp_step GetClient (m, w) = (m, w)"
| "sftp_step IsConnected (m, w) = (m, w)"
| "sftp_step GetConfig (m, w) = (m, snd (SFTPConnection_getConfig m w))"

fun ftp_run :: "op list \<Rightarrow> FTPConnection \<times> world \<Rightarrow> FTPConnection \<times> world" where
  "ftp_run [] s = s"
| "ftp_run (x # xs) s = ftp_run xs (ftp_step x s)"

fun sftp_run :: "op list \<Rightarrow> SFTPConnection \<times> world \<Rightarrow> SFTPConnection \<times> world" where
  "sftp_run [] s = s"
| "sftp_run (x # xs) s = sftp_run xs (sftp_step x s)"

text \<open>A call of \<open>connect()\<close> that succeeded.\<close>

fun is_successful_connect :: "op \<Rightarrow> bool" where
  "is_successful_connect (Connect Returns) = True"
| "is_successful_connect _ = False"

section \<open>Example objects\<close>

text \<open>
  The configs of the usage example at the end of \<^verbatim>\<open>external.ts\<close>, as the store holds
  them before any manager is constructed: the credentials object (address 0), the
  object-storage config that refers to it (1), the FTP config (2) and the SFTP config
  (3). The object at address 4 is a config without a host.
\<close>

definition w_example :: world where
  "w_example =
     \<lparr>heap = [Plain [(''accessKeyId'', VStr ''YOUR_KEY''), (''secretAccessKey'', VStr ''YOUR_SECRET'')],
              Plain [(''region'', VStr ''us-east-1''), (''credentials'', VRef 0)],
              Plain [(''host'', VStr ''ftp.example.com''), (''user'', VStr ''username''),
                     (''password'', VStr ''password'')],
              Plain [(''host'', VStr ''sftp.example.com''), (''username'', VStr ''user''),
                     (''password'', VStr ''pass'')],
              Plain [(''port'', VNum 21)]],
      trace = []\<rparr>"

text \<open>
  The three managers of the usage example, as their constructors leave them when called
  one after the other on that store (the clients get the addresses 5, 6 and 7), and the
  FTP and SFTP managers after a \<open>connect()\<close> each that succeeded.
\<close>

definition s3_example :: S3Connection where
  "s3_example = \<lparr>s3_client = 5, s3_config = 1, s3_connected = True\<rparr>"

definition ftp_example :: FTPConnection where
  "ftp_example = \<lparr>ftp_client = 6, ftp_config = 2, ftp_connected = False\<rparr>"

definition sftp_example :: SFTPConnection where
  "sftp_example = \<lparr>sftp_client = 7, sftp_config = 3, sftp_connected = False\<rparr>"

definition w_managers :: world where
  "w_managers =
     w_example\<lparr>heap := heap w_example @
       [S3Client_obj [(''region'', VStr ''us-east-1''), (''credentials'', VRef 0),
                      (''endpoint'', VUndefined), (''forcePathStyle'', VUndefined)],
        FtpClient_obj False, SftpClient_obj]\<rparr>"

definition ftp_connected_example :: FTPConnection where
  "ftp_connected_example = ftp_example\<lparr>ftp_connected := True\<rparr>"

definition sftp_connected_example :: SFTPConnection where
  "sftp_connected_example = sftp_example\<lparr>sftp_connected := True\<rparr>"

definition w_connected :: world where
  "w_connected =
     w_managers\<lparr>trace :=
       [Ftp_access 6 [(''host'', VStr ''ftp.example.com''), (''port'', VNum 21),
                      (''user'', VStr ''username''), (''password'', VStr ''password''),
                      (''secure'', VBool False), (''secureOptions'', VUndefined)],
        Sftp_connect 7 [(''host'', VStr ''sftp.example.com''), (''port'', VNum 22),
                        (''username'', VStr ''user''), (''password'', VStr ''pass''),
                        (''privateKey'', VUndefined), (''passphrase'', VUndefined)]]\<rparr>"

text \<open>What a driver throws when the server refuses the connection: an \<open>Error\<close> with a code.\<close>

definition econnrefused :: thrown where
  "econnrefused =
     Error_obj ''connect ECONNREFUSED''
       [(''name'', VStr ''Error''), (''code'', VStr ''ECONNREFUSED'')]"

text \<open>\<open>o.p.q\<close>, read through the reference in \<open>o.p\<close>.\<close>

definition get_nested_prop :: "world \<Rightarrow> addr \<Rightarrow> string \<Rightarrow> string \<Rightarrow> js_val" where
  "get_nested_prop w a p q = (case get_prop w a p of VRef b \<Rightarrow> get_prop w b q | _ \<Rightarrow> VUndefined)"

text \<open>
  A caller takes the config from the object-storage manager (the copy gets the address
  8) and then assigns to \<open>credentials.accessKeyId\<close> of what it got.
\<close>

definition w_got_config :: world where
  "w_got_config = snd (S3Connection_getConfig s3_example w_managers)"

definition w_key_changed :: world where
  "w_key_changed = set_nested_prop 8 ''credentials'' ''accessKeyId'' (VStr ''CHANGED'') w_got_config"

section \<open>Basic facts\<close>

lemmas store_defs = alloc_def call_def props_at_def get_prop_def set_prop_def set_nested_prop_def
  spread_def prop_of_def js_or_def get_nested_prop_def new_Error_def

lemmas s3_defs = S3Connection_new_def S3Connection_getClient_def S3Connection_isConnected_def
  S3Connection_disconnect_def S3Connection_getConfig_def

lemmas ftp_defs = FTPConnection_new_def FTPConnection_getClient_def FTPConnection_isConnected_def
  FTPConnection_disconnect_def FTPConnection_getConfig_def FTPConnection_connect_def
  ftp_access_options_def

lemmas sftp_defs = SFTPConnection_new_def SFTPConnection_getClient_def
  SFTPConnection_isConnected_def SFTPConnection_disconnect_def SFTPConnection_getConfig_def
  SFTPConnection_connect_def sftp_connectConfig_def

lemmas example_defs = w_example_def w_managers_def w_connected_def s3_example_def
  ftp_example_def sftp_example_def ftp_connected_example_def sftp_connected_example_def
  econnrefused_def w_got_config_def w_key_changed_def

text \<open>The example managers are what the constructors and \<open>connect()\<close> produce.\<close>

lemma examples_constructed:
  "S3Connection_new Returns 1 w_example =
     Inr (s3_example, w_example\<lparr>heap := take 6 (heap w_managers)\<rparr>)"
  "FTPConnection_new Returns 2 (w_example\<lparr>heap := take 6 (heap w_managers)\<rparr>) =
     Inr (ftp_example, w_example\<lparr>heap := take 7 (heap w_managers)\<rparr>)"
  "SFTPConnection_new Returns 3 (w_example\<lparr>heap := take 7 (heap w_managers)\<rparr>) =
     Inr (sftp_example, w_managers)"
  by (simp_all add: example_defs s3_defs ftp_defs sftp_defs store_defs)

lemma examples_connected:
  "sftp_step (Connect Returns)
     (sftp_example, snd (ftp_step (Connect Returns) (ftp_example, w_managers))) =
   (sftp_connected_example, w_connected)"
  "ftp_step (Connect Returns) (ftp_example, w_managers) =
   (ftp_connected_example, snd (ftp_step (Connect Returns) (ftp_example, w_managers)))"
  by (simp_all add: example_defs ftp_defs sftp_defs store_defs)

text \<open>
  Without a successful \<open>connect()\<close>, the flag of an FTP or SFTP manager stays as the
  constructor left it: a failed \<open>connect()\<close> clears it, \<open>disconnect()\<close> can only clear
  it, and the reads do not touch it.
\<close>

lemma ftp_step_not_connected:
  "\<not> ftp_connected (fst s) \<Longrightarrow> \<not> is_successful_connect x
     \<Longrightarrow> \<not> ftp_connected (fst (ftp_step x s))"
  by (cases s; cases x rule: is_successful_connect.cases)
     (simp_all add: FTPConnection_connect_def FTPConnection_disconnect_def)

lemma ftp_run_not_connected:
  "\<not> ftp_connected (fst s) \<Longrightarrow> list_all (\<lambda>x. \<not> is_successful_connect x) ops
     \<Longrightarrow> \<not> ftp_connected (fst (ftp_run ops s))"
  by (induction ops arbitrary: s) (simp_all add: ftp_step_not_connected)

lemma sftp_step_not_connected:
  "\<not> sftp_connected (fst s) \<Longrightarrow> \<not> is_successful_connect x
     \<Longrightarrow> \<not> sftp_connected (fst (sftp_step x s))"
  by (cases s; cases x rule: is_successful_connect.cases)
     (simp_all add: SFTPConnection_connect_def SFTPConnection_disconnect_def)

lemma sftp_run_not_connected:
  "\<not> sftp_connected (fst s) \<Longrightarrow> list_all (\<lambda>x. \<not> is_successful_connect x) ops
     \<Longrightarrow> \<not> sftp_connected (fst (sftp_run ops s))"
  by (induction ops arbitrary: s) (simp_all add: sftp_step_not_connected)

lemma ftp_new_not_connected:
  "FTPConnection_new Returns config w = Inr s \<Longrightarrow> \<not> ftp_connected (fst s)"
  by (auto simp: FTPConnection_new_def alloc_def)

lemma sftp_new_not_connected:
  "SFTPConnection_new Returns config w = Inr s \<Longrightarrow> \<not> sftp_connected (fst s)"
  by (auto simp: SFTPConnection_new_def alloc_def)

section \<open>The constructors and the first connect\<close>

text \<open>
  C8. For every object-storage config, with a region or without, the manager that the
  constructor returns has \<open>isConnected()\<close> true, and the constructor has called no
  method of the client: the trace of driver calls is the one from before. An FTP or
  SFTP manager has \<open>isConnected()\<close> false after construction and after every sequence
  of calls in which no \<open>connect()\<close> succeeded, and true after a \<open>connect()\<close> that
  succeeded.
\<close>

theorem isConnected_after_construction:
  assumes "list_all (\<lambda>x. \<not> is_successful_connect x) ops"
  shows "(case S3Connection_new Returns cs w of
            Inr (m, w') \<Rightarrow> S3Connection_isConnected m \<and> trace w' = trace w
          | Inl e \<Rightarrow> False)
       \<and> (case FTPConnection_new Returns cf w of
            Inr s \<Rightarrow> \<not> FTPConnection_isConnected (fst s) \<and> trace (snd s) = trace w
                   \<and> \<not> FTPConnection_isConnected (fst (ftp_run ops s))
                   \<and> FTPConnection_isConnected (fst (ftp_step (Connect Returns) (ftp_run ops s)))
          | Inl e \<Rightarrow> False)
       \<and> (case SFTPConnection_new Returns cg w of
            Inr s \<Rightarrow> \<not> SFTPConnection_isConnected (fst s) \<and> trace (snd s) = trace w
                   \<and> \<not> SFTPConnection_isConnected (fst (sftp_run ops s))
                   \<and> SFTPConnection_isConnected (fst (sftp_step (Connect Returns) (sftp_run ops s)))
          | Inl e \<Rightarrow> False)"
proof -
  have s3: "case S3Connection_new Returns cs w of
              Inr (m, w') \<Rightarrow> S3Connection_isConnected m \<and> trace w' = trace w
            | Inl e \<Rightarrow> False"
    by (simp add: S3Connection_new_def S3Connection_isConnected_def alloc_def)
  obtain f where f: "FTPConnection_new Returns cf w = Inr f"
    by (simp add: FTPConnection_new_def alloc_def)
  have f0: "\<not> ftp_connected (fst f)"
    using f by (rule ftp_new_not_connected)
  have f1: "\<not> ftp_connected (fst (ftp_run ops f))"
    using f0 assms by (rule ftp_run_not_connected)
  have f2: "ftp_connected (fst (ftp_step (Connect Returns) (ftp_run ops f)))"
    by (cases "ftp_run ops f") (simp add: FTPConnection_connect_def)
  have f3: "trace (snd f) = trace w"
    using f by (auto simp: FTPConnection_new_def alloc_def)
  obtain g where g: "SFTPConnection_new Returns cg w = Inr g"
    by (simp add: SFTPConnection_new_def alloc_def)
  have g0: "\<not> sftp_connected (fst g)"
    using g by (rule sftp_new_not_connected)
  have g1: "\<not> sftp_connected (fst (sftp_run ops g))"
    using g0 assms by (rule sftp_run_not_connected)
  have g2: "sftp_connected (fst (sftp_step (Connect Returns) (sftp_run ops g)))"
    by (cases "sftp_run ops g") (simp add: SFTPConnection_connect_def)
  have g3: "trace (snd g) = trace w"
    using g by (auto simp: SFTPConnection_new_def alloc_def)
  show ?thesis
    using s3 f f0 f1 f2 f3 g g0 g1 g2 g3
    by (simp add: FTPConnection_isConnected_def SFTPConnection_isConnected_def)
qed

theorem isConnected_after_construction_witness:
  "list_all (\<lambda>x. \<not> is_successful_connect x)
     [Connect (Throws econnrefused), Disconnect Returns, GetConfig, GetClient, IsConnected]
   \<and> S3Connection_new Returns 1 w_example =
       Inr (\<lparr>s3_client = 5, s3_config = 1, s3_connected = True\<rparr>,
            w_example\<lparr>heap := heap w_example @
              [S3Client_obj [(''region'', VStr ''us-east-1''), (''credentials'', VRef 0),
                             (''endpoint'', VUndefined), (''forcePathStyle'', VUndefined)]]\<rparr>)
   \<and> (case S3Connection_new Returns 1 w_example of
         Inr (m, w') \<Rightarrow> S3Connection_isConnected m \<and> trace w' = trace w_example
       | Inl e \<Rightarrow> False)
   \<and> (case FTPConnection_new Returns 2 w_example of
         Inr s \<Rightarrow> \<not> FTPConnection_isConnected (fst s) \<and> trace (snd s) = trace w_example
           \<and> \<not> FTPConnection_isConnected (fst (ftp_run
                 [Connect (Throws econnrefused), Disconnect Returns, GetConfig, GetClient,
                  IsConnected] s))
           \<and> FTPConnection_isConnected (fst (ftp_step (Connect Returns) (ftp_run
                 [Connect (Throws econnrefused), Disconnect Returns, GetConfig, GetClient,
                  IsConnected] s)))
       | Inl e \<Rightarrow> False)
   \<and> (case SFTPConnection_new Returns 3 w_example of
         Inr s \<Rightarrow> \<not> SFTPConnection_isConnected (fst s) \<and> trace (snd s) = trace w_example
           \<and> \<not> SFTPConnection_isConnected (fst (sftp_run
                 [Connect (Throws econnrefused), Disconnect Returns, GetConfig, GetClient,
                  IsConnected] s))
           \<and> SFTPConnection_isConnected (fst (sftp_step (Connect Returns) (sftp_run
                 [Connect (Throws econnrefused), Disconnect Returns, GetConfig, GetClient,
                  IsConnected] s)))
       | Inl e \<Rightarrow> False)"
  using isConnected_after_construction
    [where ops = "[Connect (Throws econnrefused), Disconnect Returns, GetConfig, GetClient,
                   IsConnected]"
       and cs = 1 and cf = 2 and cg = 3 and w = w_example]
  by (simp add: S3Connection_new_def alloc_def w_example_def get_prop_def props_at_def prop_of_def)

section \<open>getClient() and isConnected()\<close>

text \<open>
  C9. In each of the three classes and in every state of an instance (so in every state
  that calls can reach, the one after \<open>disconnect()\<close> included), \<open>getClient()\<close> returns
  the stored client exactly when \<open>isConnected()\<close> is true, and throws exactly when
  \<open>isConnected()\<close> is false.
\<close>

theorem getClient_agrees_with_isConnected:
  "(S3Connection_getClient s = Inr (s3_client s)) = S3Connection_isConnected s
   \<and> isl (S3Connection_getClient s) = (\<not> S3Connection_isConnected s)
   \<and> (FTPConnection_getClient f = Inr (ftp_client f)) = FTPConnection_isConnected f
   \<and> isl (FTPConnection_getClient f) = (\<not> FTPConnection_isConnected f)
   \<and> (SFTPConnection_getClient g = Inr (sftp_client g)) = SFTPConnection_isConnected g
   \<and> isl (SFTPConnection_getClient g) = (\<not> SFTPConnection_isConnected g)"
  by (simp add: S3Connection_getClient_def S3Connection_isConnected_def
      FTPConnection_getClient_def FTPConnection_isConnected_def
      SFTPConnection_getClient_def SFTPConnection_isConnected_def)

text \<open>
  C6. \<open>getClient()\<close> of an FTP or SFTP manager, called after the constructor and any
  sequence of calls in which no \<open>connect()\<close> succeeded, throws \<open>new Error\<close> with the
  message \<open>FTP not connected. Call connect() first.\<close> (\<open>SFTP ...\<close> for SFTP) and returns
  no client. The error is a plain \<open>Error\<close>: its name and its message are all it has.
\<close>

theorem getClient_before_connect_throws:
  assumes "list_all (\<lambda>x. \<not> is_successful_connect x) ops"
  shows "(case FTPConnection_new Returns cf w of
            Inr s \<Rightarrow> FTPConnection_getClient (fst (ftp_run ops s)) =
                       Inl (Error_obj ''FTP not connected. Call connect() first.''
                         [(''name'', VStr ''Error'')])
          | Inl e \<Rightarrow> False)
       \<and> (case SFTPConnection_new Returns cg w of
            Inr s \<Rightarrow> SFTPConnection_getClient (fst (sftp_run ops s)) =
                       Inl (Error_obj ''SFTP not connected. Call connect() first.''
                         [(''name'', VStr ''Error'')])
          | Inl e \<Rightarrow> False)"
proof -
  obtain f where f: "FTPConnection_new Returns cf w = Inr f"
    by (simp add: FTPConnection_new_def alloc_def)
  have "\<not> ftp_connected (fst f)"
    using f by (rule ftp_new_not_connected)
  then have f1: "\<not> ftp_connected (fst (ftp_run ops f))"
    using assms by (rule ftp_run_not_connected)
  obtain g where g: "SFTPConnection_new Returns cg w = Inr g"
    by (simp add: SFTPConnection_new_def alloc_def)
  have "\<not> sftp_connected (fst g)"
    using g by (rule sftp_new_not_connected)
  then have g1: "\<not> sftp_connected (fst (sftp_run ops g))"
    using assms by (rule sftp_run_not_connected)
  show ?thesis
    using f f1 g g1
    by (simp add: FTPConnection_getClient_def SFTPConnection_getClient_def new_Error_def)
qed

theorem getClient_before_connect_throws_witness:
  "list_all (\<lambda>x. \<not> is_successful_connect x)
     [GetClient, Connect (Throws econnrefused), Disconnect Returns, GetConfig]
   \<and> (case FTPConnection_new Returns 2 w_example of
         Inr s \<Rightarrow> FTPConnection_getClient (fst (ftp_run
                     [GetClient, Connect (Throws econnrefused), Disconnect Returns, GetConfig] s)) =
                   Inl (Error_obj ''FTP not connected. Call connect() first.''
                         [(''name'', VStr ''Error'')])
       | Inl e \<Rightarrow> False)
   \<and> (case SFTPConnection_new Returns 3 w_example of
         Inr s \<Rightarrow> SFTPConnection_getClient (fst (sftp_run
                     [GetClient, Connect (Throws econnrefused), Disconnect Returns, GetConfig] s)) =
                   Inl (Error_obj ''SFTP not connected. Call connect() first.''
                         [(''name'', VStr ''Error'')])
       | Inl e \<Rightarrow> False)"
  using getClient_before_connect_throws
    [where ops = "[GetClient, Connect (Throws econnrefused), Disconnect Returns, GetConfig]"
       and cf = 2 and cg = 3 and w = w_example]
  by simp

text \<open>
  The specification asks for an error of kind \<open>NotConnected\<close> from every manager
  before a \<open>connect()\<close>. The error that the FTP manager of the example throws has no
  \<open>kind\<close>; and the object-storage manager, whose class has no \<open>connect()\<close> at all,
  returns its client straight after construction.
\<close>

theorem getClient_before_connect_counterexample:
  "FTPConnection_getClient ftp_example =
     Inl (Error_obj ''FTP not connected. Call connect() first.''
                         [(''name'', VStr ''Error'')])
   \<and> thrown_prop (projl (FTPConnection_getClient ftp_example)) ''kind'' = VUndefined
   \<and> S3Connection_getClient s3_example = Inr 5"
  by (simp add: example_defs FTPConnection_getClient_def S3Connection_getClient_def
      new_Error_def prop_of_def)

section \<open>connect()\<close>

text \<open>
  \<open>connect()\<close> reads the config and calls the driver; it never looks at \<open>connected\<close>.
  The options do not depend on the trace of earlier calls.
\<close>

lemma ftp_access_options_call [simp]:
  "ftp_access_options (call e w) c = ftp_access_options w c"
  by (simp add: ftp_access_options_def get_prop_def props_at_def call_def)

lemma sftp_connectConfig_call [simp]:
  "sftp_connectConfig (call e w) c = sftp_connectConfig w c"
  by (simp add: sftp_connectConfig_def get_prop_def props_at_def call_def)

lemma ftp_access_options_trace [simp]:
  "ftp_access_options (w\<lparr>trace := t\<rparr>) c = ftp_access_options w c"
  by (simp add: ftp_access_options_def get_prop_def props_at_def)

lemma sftp_connectConfig_trace [simp]:
  "sftp_connectConfig (w\<lparr>trace := t\<rparr>) c = sftp_connectConfig w c"
  by (simp add: sftp_connectConfig_def get_prop_def props_at_def)

lemma ftp_connect_Returns:
  "FTPConnection_connect Returns m w =
     (Inr (), m\<lparr>ftp_connected := True\<rparr>,
      call (Ftp_access (ftp_client m) (ftp_access_options w (ftp_config m))) w)"
  by (simp add: FTPConnection_connect_def)

lemma ftp_connect_Throws:
  "FTPConnection_connect (Throws t) m w =
     (Inl (new_Error (''FTP connection failed: '' @ error_text t)), m\<lparr>ftp_connected := False\<rparr>,
      call (Ftp_access (ftp_client m) (ftp_access_options w (ftp_config m))) w)"
  by (simp add: FTPConnection_connect_def)

lemma sftp_connect_Returns:
  "SFTPConnection_connect Returns m w =
     (Inr (), m\<lparr>sftp_connected := True\<rparr>,
      call (Sftp_connect (sftp_client m) (sftp_connectConfig w (sftp_config m))) w)"
  by (simp add: SFTPConnection_connect_def)

lemma sftp_connect_Throws:
  "SFTPConnection_connect (Throws t) m w =
     (Inl (new_Error (''SFTP connection failed: '' @ error_text t)), m\<lparr>sftp_connected := False\<rparr>,
      call (Sftp_connect (sftp_client m) (sftp_connectConfig w (sftp_config m))) w)"
  by (simp add: SFTPConnection_connect_def)

lemma ftp_connect_trace:
  "trace (snd (snd (FTPConnection_connect r m w))) =
     trace w @ [Ftp_access (ftp_client m) (ftp_access_options w (ftp_config m))]"
  by (cases r) (simp_all add: FTPConnection_connect_def call_def)

lemma sftp_connect_trace:
  "trace (snd (snd (SFTPConnection_connect r m w))) =
     trace w @ [Sftp_connect (sftp_client m) (sftp_connectConfig w (sftp_config m))]"
  by (cases r) (simp_all add: SFTPConnection_connect_def call_def)

text \<open>
  C10. After a \<open>connect()\<close> of an FTP or SFTP manager has failed (and after whatever
  calls follow it), \<open>connect()\<close> can be called again: whatever the state, it calls the
  driver's handshake once more, and if that handshake returns, \<open>connect()\<close> returns and
  \<open>isConnected()\<close> is true.
\<close>

theorem connect_retry_after_failure:
  "(case FTPConnection_connect (Throws t) f w of
      (res, s) \<Rightarrow>
        isl res \<and> \<not> FTPConnection_isConnected (fst s)
      \<and> (case ftp_run ops s of
           (f1, w1) \<Rightarrow>
             trace (snd (snd (FTPConnection_connect r f1 w1))) =
               trace w1 @ [Ftp_access (ftp_client f1) (ftp_access_options w1 (ftp_config f1))]
           \<and> fst (FTPConnection_connect Returns f1 w1) = Inr ()
           \<and> FTPConnection_isConnected (fst (snd (FTPConnection_connect Returns f1 w1)))))
   \<and> (case SFTPConnection_connect (Throws t) g w of
        (res, s) \<Rightarrow>
          isl res \<and> \<not> SFTPConnection_isConnected (fst s)
        \<and> (case sftp_run ops s of
             (g1, w1) \<Rightarrow>
               trace (snd (snd (SFTPConnection_connect r g1 w1))) =
                 trace w1 @ [Sftp_connect (sftp_client g1) (sftp_connectConfig w1 (sftp_config g1))]
             \<and> fst (SFTPConnection_connect Returns g1 w1) = Inr ()
             \<and> SFTPConnection_isConnected (fst (snd (SFTPConnection_connect Returns g1 w1)))))"
  by (simp add: ftp_connect_Throws sftp_connect_Throws ftp_connect_Returns sftp_connect_Returns
      ftp_connect_trace sftp_connect_trace FTPConnection_isConnected_def
      SFTPConnection_isConnected_def split: prod.splits)

text \<open>
  C5. When the handshake of an FTP or SFTP manager fails, \<open>connect()\<close> throws
  \<open>new Error\<close> whose message is \<open>FTP connection failed: \<close> (\<open>SFTP connection failed: \<close>
  for SFTP) followed by the message of the \<open>Error\<close> that the driver threw, or, if the
  driver threw something that is not an \<open>Error\<close>, by its string form. The error has that
  message and the name \<open>Error\<close> and nothing else: of the driver's error only the message
  is kept. \<open>isConnected()\<close> is false afterwards.
\<close>

theorem failed_handshake_throws_plain_Error:
  "FTPConnection_connect (Throws (Error_obj msg ob)) f w =
     (Inl (Error_obj (''FTP connection failed: '' @ msg) [(''name'', VStr ''Error'')]),
      f\<lparr>ftp_connected := False\<rparr>,
      w\<lparr>trace := trace w @ [Ftp_access (ftp_client f) (ftp_access_options w (ftp_config f))]\<rparr>)
   \<and> FTPConnection_connect (Throws (Non_error str)) f w =
     (Inl (Error_obj (''FTP connection failed: '' @ str) [(''name'', VStr ''Error'')]),
      f\<lparr>ftp_connected := False\<rparr>,
      w\<lparr>trace := trace w @ [Ftp_access (ftp_client f) (ftp_access_options w (ftp_config f))]\<rparr>)
   \<and> \<not> FTPConnection_isConnected (fst (snd (FTPConnection_connect (Throws t) f w)))
   \<and> SFTPConnection_connect (Throws (Error_obj msg ob)) g w =
     (Inl (Error_obj (''SFTP connection failed: '' @ msg) [(''name'', VStr ''Error'')]),
      g\<lparr>sftp_connected := False\<rparr>,
      w\<lparr>trace := trace w @ [Sftp_connect (sftp_client g) (sftp_connectConfig w (sftp_config g))]\<rparr>)
   \<and> SFTPConnection_connect (Throws (Non_error str)) g w =
     (Inl (Error_obj (''SFTP connection failed: '' @ str) [(''name'', VStr ''Error'')]),
      g\<lparr>sftp_connected := False\<rparr>,
      w\<lparr>trace := trace w @ [Sftp_connect (sftp_client g) (sftp_connectConfig w (sftp_config g))]\<rparr>)
   \<and> \<not> SFTPConnection_isConnected (fst (snd (SFTPConnection_connect (Throws t) g w)))"
  by (simp add: FTPConnection_connect_def SFTPConnection_connect_def new_Error_def call_def
      FTPConnection_isConnected_def SFTPConnection_isConnected_def)

text \<open>
  The specification asks for a typed error that carries a kind (\<open>HandshakeFailed\<close>),
  the backend type and the original cause. With a server that refuses the connection,
  the error that \<open>connect()\<close> of the FTP manager throws has neither \<open>kind\<close> nor
  \<open>cause\<close>, and the \<open>code\<close> of the driver's error is gone: only its message was copied
  into the new message.
\<close>

theorem failed_handshake_counterexample:
  "thrown_prop econnrefused ''code'' = VStr ''ECONNREFUSED''
   \<and> fst (FTPConnection_connect (Throws econnrefused) ftp_example w_managers) =
       Inl (Error_obj ''FTP connection failed: connect ECONNREFUSED'' [(''name'', VStr ''Error'')])
   \<and> thrown_prop (projl (fst (FTPConnection_connect (Throws econnrefused) ftp_example w_managers)))
         ''kind'' = VUndefined
   \<and> thrown_prop (projl (fst (FTPConnection_connect (Throws econnrefused) ftp_example w_managers)))
         ''cause'' = VUndefined
   \<and> thrown_prop (projl (fst (FTPConnection_connect (Throws econnrefused) ftp_example w_managers)))
         ''code'' = VUndefined"
  by (simp add: example_defs ftp_connect_Throws new_Error_def prop_of_def)

text \<open>
  C2. After \<open>disconnect()\<close> on a connected FTP or SFTP manager, \<open>connect()\<close> is not
  rejected: it calls the driver's handshake on the same client, and if the handshake
  returns, \<open>connect()\<close> returns, \<open>isConnected()\<close> is true again and \<open>getClient()\<close> gives
  the client back.
\<close>

theorem connect_after_disconnect_reconnects:
  assumes "FTPConnection_isConnected f" and "SFTPConnection_isConnected g"
  shows "(case FTPConnection_disconnect Returns f w of
            (r1, f1, w1) \<Rightarrow>
              r1 = Inr () \<and> \<not> FTPConnection_isConnected f1
            \<and> (case FTPConnection_connect Returns f1 w1 of
                 (r2, f2, w2) \<Rightarrow>
                   r2 = Inr () \<and> FTPConnection_isConnected f2
                 \<and> FTPConnection_getClient f2 = Inr (ftp_client f)
                 \<and> trace w2 = trace w @ [Ftp_close (ftp_client f),
                      Ftp_access (ftp_client f) (ftp_access_options w (ftp_config f))]))
       \<and> (case SFTPConnection_disconnect Returns g w of
            (r1, g1, w1) \<Rightarrow>
              r1 = Inr () \<and> \<not> SFTPConnection_isConnected g1
            \<and> (case SFTPConnection_connect Returns g1 w1 of
                 (r2, g2, w2) \<Rightarrow>
                   r2 = Inr () \<and> SFTPConnection_isConnected g2
                 \<and> SFTPConnection_getClient g2 = Inr (sftp_client g)
                 \<and> trace w2 = trace w @ [Sftp_end (sftp_client g),
                      Sftp_connect (sftp_client g) (sftp_connectConfig w (sftp_config g))]))"
  using assms
  by (simp add: FTPConnection_isConnected_def SFTPConnection_isConnected_def
      FTPConnection_disconnect_def SFTPConnection_disconnect_def
      ftp_connect_Returns sftp_connect_Returns FTPConnection_getClient_def
      SFTPConnection_getClient_def call_def)

theorem connect_after_disconnect_reconnects_witness:
  "FTPConnection_isConnected ftp_connected_example
   \<and> SFTPConnection_isConnected sftp_connected_example
   \<and> (case FTPConnection_disconnect Returns ftp_connected_example w_connected of
         (r1, f1, w1) \<Rightarrow>
           r1 = Inr () \<and> \<not> FTPConnection_isConnected f1
         \<and> (case FTPConnection_connect Returns f1 w1 of
              (r2, f2, w2) \<Rightarrow>
                r2 = Inr () \<and> FTPConnection_isConnected f2
              \<and> FTPConnection_getClient f2 = Inr 6
              \<and> trace w2 = trace w_connected @ [Ftp_close 6,
                   Ftp_access 6 [(''host'', VStr ''ftp.example.com''), (''port'', VNum 21),
                                 (''user'', VStr ''username''), (''password'', VStr ''password''),
                                 (''secure'', VBool False), (''secureOptions'', VUndefined)]]))
   \<and> (case SFTPConnection_disconnect Returns sftp_connected_example w_connected of
         (r1, g1, w1) \<Rightarrow>
           r1 = Inr () \<and> \<not> SFTPConnection_isConnected g1
         \<and> (case SFTPConnection_connect Returns g1 w1 of
              (r2, g2, w2) \<Rightarrow>
                r2 = Inr () \<and> SFTPConnection_isConnected g2
              \<and> SFTPConnection_getClient g2 = Inr 7
              \<and> trace w2 = trace w_connected @ [Sftp_end 7,
                   Sftp_connect 7 [(''host'', VStr ''sftp.example.com''), (''port'', VNum 22),
                                   (''username'', VStr ''user''), (''password'', VStr ''pass''),
                                   (''privateKey'', VUndefined), (''passphrase'', VUndefined)]]))"
  using connect_after_disconnect_reconnects
    [where f = ftp_connected_example and g = sftp_connected_example and w = w_connected]
  by (simp add: example_defs ftp_defs sftp_defs store_defs)

text \<open>
  The specification has the manager reject \<open>connect()\<close> once it was disconnected. The
  FTP manager of the example is connected and disconnected; the \<open>connect()\<close> that
  follows returns without an error and leaves the manager connected.
\<close>

theorem connect_after_disconnect_counterexample:
  "\<not> FTPConnection_isConnected
        (fst (ftp_run [Connect Returns, Disconnect Returns] (ftp_example, w_managers)))
   \<and> fst (FTPConnection_connect Returns
            (fst (ftp_run [Connect Returns, Disconnect Returns] (ftp_example, w_managers)))
            (snd (ftp_run [Connect Returns, Disconnect Returns] (ftp_example, w_managers)))) =
       Inr ()
   \<and> FTPConnection_isConnected
        (fst (ftp_run [Connect Returns, Disconnect Returns, Connect Returns]
                (ftp_example, w_managers)))"
  by (simp add: ftp_connect_Returns FTPConnection_disconnect_def FTPConnection_isConnected_def)

text \<open>
  C3. \<open>connect()\<close> on a manager that is already connected calls the driver's handshake
  again, on the same client, and the manager holds the same client afterwards. If the
  handshake returns, \<open>connect()\<close> returns and \<open>getClient()\<close> gives what it gave before.
\<close>

theorem connect_when_connected_handshakes_again:
  assumes "FTPConnection_isConnected f" and "SFTPConnection_isConnected g"
  shows "(case FTPConnection_connect r f w of
            (res, f', w') \<Rightarrow>
              trace w' = trace w @ [Ftp_access (ftp_client f) (ftp_access_options w (ftp_config f))]
            \<and> ftp_client f' = ftp_client f)
       \<and> (case FTPConnection_connect Returns f w of
            (res, f', w') \<Rightarrow>
              res = Inr () \<and> FTPConnection_getClient f' = FTPConnection_getClient f
            \<and> FTPConnection_getClient f' = Inr (ftp_client f))
       \<and> (case SFTPConnection_connect r g w of
            (res, g', w') \<Rightarrow>
              trace w' = trace w @ [Sftp_connect (sftp_client g) (sftp_connectConfig w (sftp_config g))]
            \<and> sftp_client g' = sftp_client g)
       \<and> (case SFTPConnection_connect Returns g w of
            (res, g', w') \<Rightarrow>
              res = Inr () \<and> SFTPConnection_getClient g' = SFTPConnection_getClient g
            \<and> SFTPConnection_getClient g' = Inr (sftp_client g))"
proof -
  have "trace (snd (snd (FTPConnection_connect r f w))) =
          trace w @ [Ftp_access (ftp_client f) (ftp_access_options w (ftp_config f))]"
    by (rule ftp_connect_trace)
  moreover have "ftp_client (fst (snd (FTPConnection_connect r f w))) = ftp_client f"
    by (cases r) (simp_all add: FTPConnection_connect_def)
  moreover have "trace (snd (snd (SFTPConnection_connect r g w))) =
          trace w @ [Sftp_connect (sftp_client g) (sftp_connectConfig w (sftp_config g))]"
    by (rule sftp_connect_trace)
  moreover have "sftp_client (fst (snd (SFTPConnection_connect r g w))) = sftp_client g"
    by (cases r) (simp_all add: SFTPConnection_connect_def)
  ultimately show ?thesis
    using assms
    by (auto simp: ftp_connect_Returns sftp_connect_Returns FTPConnection_getClient_def
        SFTPConnection_getClient_def FTPConnection_isConnected_def
        SFTPConnection_isConnected_def split: prod.splits)
qed

theorem connect_when_connected_handshakes_again_witness:
  "FTPConnection_isConnected ftp_connected_example
   \<and> SFTPConnection_isConnected sftp_connected_example
   \<and> (case FTPConnection_connect Returns ftp_connected_example w_connected of
         (res, f', w') \<Rightarrow>
           trace w' = trace w_connected @
             [Ftp_access 6 [(''host'', VStr ''ftp.example.com''), (''port'', VNum 21),
                            (''user'', VStr ''username''), (''password'', VStr ''password''),
                            (''secure'', VBool False), (''secureOptions'', VUndefined)]]
         \<and> ftp_client f' = 6 \<and> res = Inr () \<and> FTPConnection_getClient f' = Inr 6)
   \<and> (case SFTPConnection_connect Returns sftp_connected_example w_connected of
         (res, g', w') \<Rightarrow>
           trace w' = trace w_connected @
             [Sftp_connect 7 [(''host'', VStr ''sftp.example.com''), (''port'', VNum 22),
                              (''username'', VStr ''user''), (''password'', VStr ''pass''),
                              (''privateKey'', VUndefined), (''passphrase'', VUndefined)]]
         \<and> sftp_client g' = 7 \<and> res = Inr () \<and> SFTPConnection_getClient g' = Inr 7)"
  using connect_when_connected_handshakes_again
    [where f = ftp_connected_example and g = sftp_connected_example and w = w_connected
       and r = Returns]
  by (simp add: example_defs ftp_defs sftp_defs store_defs)

text \<open>
  The specification has the second \<open>connect()\<close> perform no handshake. Two calls of
  \<open>connect()\<close> on the FTP manager of the example leave two calls of the driver's
  \<open>access\<close> in the trace, the second made while the manager was connected.
\<close>

theorem connect_twice_counterexample:
  "FTPConnection_isConnected (fst (ftp_run [Connect Returns] (ftp_example, w_managers)))
   \<and> trace (snd (ftp_run [Connect Returns, Connect Returns] (ftp_example, w_managers))) =
       [Ftp_access 6 [(''host'', VStr ''ftp.example.com''), (''port'', VNum 21),
                      (''user'', VStr ''username''), (''password'', VStr ''password''),
                      (''secure'', VBool False), (''secureOptions'', VUndefined)],
        Ftp_access 6 [(''host'', VStr ''ftp.example.com''), (''port'', VNum 21),
                      (''user'', VStr ''username''), (''password'', VStr ''password''),
                      (''secure'', VBool False), (''secureOptions'', VUndefined)]]"
  by (simp add: example_defs ftp_connect_Returns FTPConnection_isConnected_def
      ftp_access_options_def store_defs)

section \<open>Construction and the config\<close>

text \<open>Allocating a client changes the properties of no plain object.\<close>

lemma props_at_new_client:
  "\<forall>ob. x \<noteq> Plain ob \<Longrightarrow> props_at (w\<lparr>heap := heap w @ [x]\<rparr>) c = props_at w c"
  by (cases x) (auto simp: props_at_def nth_append)

text \<open>
  C1. No constructor checks the config. Whenever the driver's constructor returns, the
  manager's constructor returns a manager that holds the reference to the config it was
  given, whatever fields that config has, and it has called no method of the client;
  a host that is missing is handed to the driver as \<open>undefined\<close> when \<open>connect()\<close> is
  called. If the driver's constructor throws, the value it threw goes to the caller as
  it is.
\<close>

theorem construction_does_not_validate:
  "(case S3Connection_new Returns c w of
      Inr (m, w') \<Rightarrow> s3_config m = c \<and> trace w' = trace w
    | Inl e \<Rightarrow> False)
   \<and> (case FTPConnection_new Returns c w of
        Inr (m, w') \<Rightarrow> ftp_config m = c \<and> trace w' = trace w
          \<and> prop_of (ftp_access_options w' (ftp_config m)) ''host'' = get_prop w c ''host''
      | Inl e \<Rightarrow> False)
   \<and> (case SFTPConnection_new Returns c w of
        Inr (m, w') \<Rightarrow> sftp_config m = c \<and> trace w' = trace w
          \<and> prop_of (sftp_connectConfig w' (sftp_config m)) ''host'' = get_prop w c ''host''
      | Inl e \<Rightarrow> False)
   \<and> S3Connection_new (Throws t) c w = Inl t
   \<and> FTPConnection_new (Throws t) c w = Inl t
   \<and> SFTPConnection_new (Throws t) c w = Inl t"
proof -
  have "case S3Connection_new Returns c w of
          Inr (m, w') \<Rightarrow> s3_config m = c \<and> trace w' = trace w
        | Inl e \<Rightarrow> False"
    by (simp add: S3Connection_new_def alloc_def)
  moreover have "case FTPConnection_new Returns c w of
          Inr (m, w') \<Rightarrow> ftp_config m = c \<and> trace w' = trace w
            \<and> prop_of (ftp_access_options w' (ftp_config m)) ''host'' = get_prop w c ''host''
        | Inl e \<Rightarrow> False"
    by (simp add: FTPConnection_new_def alloc_def ftp_access_options_def get_prop_def
        props_at_new_client prop_of_def)
  moreover have "case SFTPConnection_new Returns c w of
          Inr (m, w') \<Rightarrow> sftp_config m = c \<and> trace w' = trace w
            \<and> prop_of (sftp_connectConfig w' (sftp_config m)) ''host'' = get_prop w c ''host''
        | Inl e \<Rightarrow> False"
    by (simp add: SFTPConnection_new_def alloc_def sftp_connectConfig_def get_prop_def
        props_at_new_client prop_of_def)
  moreover have "S3Connection_new (Throws t) c w = Inl t
      \<and> FTPConnection_new (Throws t) c w = Inl t
      \<and> SFTPConnection_new (Throws t) c w = Inl t"
    by (simp add: S3Connection_new_def FTPConnection_new_def SFTPConnection_new_def)
  ultimately show ?thesis
    by blast
qed

text \<open>
  The specification has construction fail with \<open>ConfigInvalid\<close> when the host is
  missing. The config at address 4 has no host; both constructors return a manager for
  it.
\<close>

theorem construction_missing_host_counterexample:
  "get_prop w_example 4 ''host'' = VUndefined
   \<and> FTPConnection_new Returns 4 w_example =
       Inr (\<lparr>ftp_client = 5, ftp_config = 4, ftp_connected = False\<rparr>,
            w_example\<lparr>heap := heap w_example @ [FtpClient_obj False]\<rparr>)
   \<and> SFTPConnection_new Returns 4 w_example =
       Inr (\<lparr>sftp_client = 5, sftp_config = 4, sftp_connected = False\<rparr>,
            w_example\<lparr>heap := heap w_example @ [SftpClient_obj]\<rparr>)"
  by (simp add: FTPConnection_new_def SFTPConnection_new_def alloc_def get_prop_def
      props_at_def prop_of_def w_example_def)

section \<open>getConfig()\<close>

text \<open>
  The spread allocates a new object with the properties of the old one. An assignment
  to a property of the new object leaves the old one as it was.
\<close>

lemma spread_copy:
  assumes "c < length (heap w)"
  shows "case spread c w of
           (a, w1) \<Rightarrow>
             a \<noteq> c \<and> props_at w1 a = props_at w c
           \<and> props_at (set_prop a p v w1) c = props_at w c
           \<and> (case spread c (set_prop a p v w1) of (b, w2) \<Rightarrow> props_at w2 b = props_at w c)"
  using assms
  by (simp add: spread_def alloc_def props_at_def set_prop_def nth_append)

text \<open>
  A property that holds a reference is copied as that reference: an assignment inside
  the nested object, made through the copy, lands in the one object that both refer to.
\<close>

lemma get_prop_set_prop_same:
  assumes "b < length (heap w)" and "heap w ! b = Plain ob"
  shows "get_prop (set_prop b q v w) b q = v"
  using assms by (simp add: get_prop_def set_prop_def props_at_def prop_of_def update_conv)

lemma spread_shares_nested:
  assumes "c < length (heap w)" and "get_prop w c p = VRef b" and "b < length (heap w)"
    and "heap w ! b = Plain ob"
  shows "case spread c w of
           (a, w1) \<Rightarrow>
             get_prop w1 a p = VRef b \<and> get_prop (set_nested_prop a p q v w1) b q = v"
proof -
  obtain a w1 where sp: "spread c w = (a, w1)"
    by (cases "spread c w")
  then have w1: "w1 = w\<lparr>heap := heap w @ [Plain (props_at w c)]\<rparr>" and a: "a = length (heap w)"
    by (simp_all add: spread_def alloc_def)
  have copy: "get_prop w1 a p = VRef b"
    using assms(2) by (simp add: w1 a get_prop_def props_at_def)
  have live: "b < length (heap w1)" "heap w1 ! b = Plain ob"
    using assms(3,4) by (simp_all add: w1 nth_append)
  have "get_prop (set_prop b q v w1) b q = v"
    using live by (rule get_prop_set_prop_same)
  then have "get_prop (set_nested_prop a p q v w1) b q = v"
    by (simp add: set_nested_prop_def copy)
  with copy show ?thesis
    by (simp add: sp)
qed

text \<open>
  C4. \<open>getConfig()\<close> returns a new object with the same properties, values and
  references alike, as the manager's config. Assigning to a property of the returned
  object changes neither the manager's config nor what the next \<open>getConfig()\<close> returns.
  Nested objects are not copied: the returned object holds the references that the
  manager's config holds.
\<close>

theorem getConfig_copies_top_level:
  assumes "s3_config s < length (heap w)" and "ftp_config f < length (heap w)"
    and "sftp_config g < length (heap w)"
  shows "(case S3Connection_getConfig s w of
            (a, w1) \<Rightarrow>
              a \<noteq> s3_config s \<and> props_at w1 a = props_at w (s3_config s)
            \<and> props_at (set_prop a p v w1) (s3_config s) = props_at w (s3_config s)
            \<and> (case S3Connection_getConfig s (set_prop a p v w1) of
                 (b, w2) \<Rightarrow> props_at w2 b = props_at w (s3_config s)))
       \<and> (case FTPConnection_getConfig f w of
            (a, w1) \<Rightarrow>
              a \<noteq> ftp_config f \<and> props_at w1 a = props_at w (ftp_config f)
            \<and> props_at (set_prop a p v w1) (ftp_config f) = props_at w (ftp_config f)
            \<and> (case FTPConnection_getConfig f (set_prop a p v w1) of
                 (b, w2) \<Rightarrow> props_at w2 b = props_at w (ftp_config f)))
       \<and> (case SFTPConnection_getConfig g w of
            (a, w1) \<Rightarrow>
              a \<noteq> sftp_config g \<and> props_at w1 a = props_at w (sftp_config g)
            \<and> props_at (set_prop a p v w1) (sftp_config g) = props_at w (sftp_config g)
            \<and> (case SFTPConnection_getConfig g (set_prop a p v w1) of
                 (b, w2) \<Rightarrow> props_at w2 b = props_at w (sftp_config g)))"
  unfolding S3Connection_getConfig_def FTPConnection_getConfig_def SFTPConnection_getConfig_def
  using spread_copy [OF assms(1)] spread_copy [OF assms(2)] spread_copy [OF assms(3)]
  by simp

theorem getConfig_copies_top_level_witness:
  "s3_config s3_example < length (heap w_managers)
   \<and> ftp_config ftp_example < length (heap w_managers)
   \<and> sftp_config sftp_example < length (heap w_managers)
   \<and> (case S3Connection_getConfig s3_example w_managers of
         (a, w1) \<Rightarrow>
           a = 8
         \<and> props_at w1 a = [(''region'', VStr ''us-east-1''), (''credentials'', VRef 0)]
         \<and> props_at (set_prop a ''region'' (VStr ''eu-west-1'') w1) 8 =
             [(''region'', VStr ''eu-west-1''), (''credentials'', VRef 0)]
         \<and> props_at (set_prop a ''region'' (VStr ''eu-west-1'') w1) (s3_config s3_example) =
             [(''region'', VStr ''us-east-1''), (''credentials'', VRef 0)]
         \<and> (case S3Connection_getConfig s3_example (set_prop a ''region'' (VStr ''eu-west-1'') w1) of
              (b, w2) \<Rightarrow> props_at w2 b = [(''region'', VStr ''us-east-1''), (''credentials'', VRef 0)]))
   \<and> (case FTPConnection_getConfig ftp_example w_managers of
         (a, w1) \<Rightarrow>
           props_at (set_prop a ''region'' (VStr ''eu-west-1'') w1) (ftp_config ftp_example) =
             props_at w_managers (ftp_config ftp_example))
   \<and> (case SFTPConnection_getConfig sftp_example w_managers of
         (a, w1) \<Rightarrow>
           props_at (set_prop a ''region'' (VStr ''eu-west-1'') w1) (sftp_config sftp_example) =
             props_at w_managers (sftp_config sftp_example))"
  using getConfig_copies_top_level
    [where s = s3_example and f = ftp_example and g = sftp_example and w = w_managers
       and p = "''region''" and v = "VStr ''eu-west-1''"]
  by (simp add: example_defs s3_defs ftp_defs sftp_defs store_defs)

text \<open>
  The specification makes the copy independent in its nested fields too. In the
  example, the access key is changed through the object that \<open>getConfig()\<close> returned;
  the manager's own config then reads the new key, and so does the object that the next
  \<open>getConfig()\<close> returns.
\<close>

theorem getConfig_nested_counterexample:
  "fst (S3Connection_getConfig s3_example w_managers) = 8
   \<and> get_nested_prop w_got_config (s3_config s3_example) ''credentials'' ''accessKeyId'' =
       VStr ''YOUR_KEY''
   \<and> get_nested_prop w_key_changed (s3_config s3_example) ''credentials'' ''accessKeyId'' =
       VStr ''CHANGED''
   \<and> get_nested_prop (snd (S3Connection_getConfig s3_example w_key_changed))
         (fst (S3Connection_getConfig s3_example w_key_changed)) ''credentials'' ''accessKeyId'' =
       VStr ''CHANGED''"
  by (simp add: example_defs s3_defs store_defs)

section \<open>disconnect()\<close>

text \<open>
  The FTP and SFTP managers test \<open>connected\<close>: once a \<open>disconnect()\<close> has returned, the
  next one changes nothing and calls nothing.
\<close>

lemma ftp_disconnect_twice:
  "fst (FTPConnection_disconnect r1 f w) = Inr () \<Longrightarrow>
   FTPConnection_disconnect r2 (fst (snd (FTPConnection_disconnect r1 f w)))
       (snd (snd (FTPConnection_disconnect r1 f w))) =
     (Inr (), snd (FTPConnection_disconnect r1 f w))"
  by (cases r1) (simp_all add: FTPConnection_disconnect_def split: if_splits)

lemma sftp_disconnect_twice:
  "fst (SFTPConnection_disconnect r1 g w) = Inr () \<Longrightarrow>
   SFTPConnection_disconnect r2 (fst (snd (SFTPConnection_disconnect r1 g w)))
       (snd (snd (SFTPConnection_disconnect r1 g w))) =
     (Inr (), snd (SFTPConnection_disconnect r1 g w))"
  by (cases r1) (simp_all add: SFTPConnection_disconnect_def split: if_splits)

text \<open>
  The object-storage manager tests the reference to the client, which is never empty:
  every \<open>disconnect()\<close> calls \<open>destroy()\<close>, whatever \<open>connected\<close> is.
\<close>

lemma s3_disconnect_always_destroys:
  "trace (snd (snd (S3Connection_disconnect r m w))) = trace w @ [S3_destroy (s3_client m)]"
  by (cases r) (simp_all add: S3Connection_disconnect_def call_def)

text \<open>
  C7. Two calls of \<open>disconnect()\<close> on the object-storage manager of the example: neither
  throws, and the manager is not connected after the first; but the second calls
  \<open>destroy()\<close> on the client once more, where the claim has it release nothing again.
\<close>

theorem s3_disconnect_twice_destroys_twice:
  "S3Connection_disconnect Returns s3_example w_managers =
     (Inr (), s3_example\<lparr>s3_connected := False\<rparr>, w_managers\<lparr>trace := [S3_destroy 5]\<rparr>)
   \<and> S3Connection_disconnect Returns (s3_example\<lparr>s3_connected := False\<rparr>)
         (w_managers\<lparr>trace := [S3_destroy 5]\<rparr>) =
     (Inr (), s3_example\<lparr>s3_connected := False\<rparr>,
      w_managers\<lparr>trace := [S3_destroy 5, S3_destroy 5]\<rparr>)"
  by (simp add: example_defs s3_defs store_defs)

end
